theory Spec2Isabelle
  imports Main "HOL-Library.Word" "HOL-Library.Sublist"
begin

section \<open>JavaScript strings\<close>

text \<open>
  A JavaScript string is a sequence of UTF-16 code units. Every kana and kanji that
  \<^verbatim>\<open>src/lib/configuration.ts\<close> mentions lies in the Basic Multilingual Plane and is
  stored precomposed, so each one is a single code unit.
\<close>

type_synonym jsstring = "16 word list"

text \<open>An ASCII literal of the source, code unit by code unit.\<close>

definition js :: "string \<Rightarrow> jsstring" where
  "js s = map of_char s"

text \<open>The kana and kanji of the source, named by their romanisation.\<close>

abbreviation h_a :: "16 word" where "h_a \<equiv> 0x3042"
abbreviation h_i :: "16 word" where "h_i \<equiv> 0x3044"
abbreviation h_u :: "16 word" where "h_u \<equiv> 0x3046"
abbreviation h_e :: "16 word" where "h_e \<equiv> 0x3048"
abbreviation h_o :: "16 word" where "h_o \<equiv> 0x304A"
abbreviation h_ka :: "16 word" where "h_ka \<equiv> 0x304B"
abbreviation h_ga :: "16 word" where "h_ga \<equiv> 0x304C"
abbreviation h_ki :: "16 word" where "h_ki \<equiv> 0x304D"
abbreviation h_gi :: "16 word" where "h_gi \<equiv> 0x304E"
abbreviation h_ku :: "16 word" where "h_ku \<equiv> 0x304F"
abbreviation h_gu :: "16 word" where "h_gu \<equiv> 0x3050"
abbreviation h_ke :: "16 word" where "h_ke \<equiv> 0x3051"
abbreviation h_ge :: "16 word" where "h_ge \<equiv> 0x3052"
abbreviation h_ko :: "16 word" where "h_ko \<equiv> 0x3053"
abbreviation h_go :: "16 word" where "h_go \<equiv> 0x3054"
abbreviation h_sa :: "16 word" where "h_sa \<equiv> 0x3055"
abbreviation h_shi :: "16 word" where "h_shi \<equiv> 0x3057"
abbreviation h_ji :: "16 word" where "h_ji \<equiv> 0x3058"
abbreviation h_su :: "16 word" where "h_su \<equiv> 0x3059"
abbreviation h_se :: "16 word" where "h_se \<equiv> 0x305B"
abbreviation h_ze :: "16 word" where "h_ze \<equiv> 0x305C"
abbreviation h_so :: "16 word" where "h_so \<equiv> 0x305D"
abbreviation h_ta :: "16 word" where "h_ta \<equiv> 0x305F"
abbreviation h_da :: "16 word" where "h_da \<equiv> 0x3060"
abbreviation h_chi :: "16 word" where "h_chi \<equiv> 0x3061"
abbreviation h_di :: "16 word" where "h_di \<equiv> 0x3062"
abbreviation h_xtsu :: "16 word" where "h_xtsu \<equiv> 0x3063"
abbreviation h_tsu :: "16 word" where "h_tsu \<equiv> 0x3064"
abbreviation h_te :: "16 word" where "h_te \<equiv> 0x3066"
abbreviation h_de :: "16 word" where "h_de \<equiv> 0x3067"
abbreviation h_to :: "16 word" where "h_to \<equiv> 0x3068"
abbreviation h_na :: "16 word" where "h_na \<equiv> 0x306A"
abbreviation h_ni :: "16 word" where "h_ni \<equiv> 0x306B"
abbreviation h_nu :: "16 word" where "h_nu \<equiv> 0x306C"
abbreviation h_ne :: "16 word" where "h_ne \<equiv> 0x306D"
abbreviation h_no :: "16 word" where "h_no \<equiv> 0x306E"
abbreviation h_ba :: "16 word" where "h_ba \<equiv> 0x3070"
abbreviation h_hi :: "16 word" where "h_hi \<equiv> 0x3072"
abbreviation h_bi :: "16 word" where "h_bi \<equiv> 0x3073"
abbreviation h_pi :: "16 word" where "h_pi \<equiv> 0x3074"
abbreviation h_bu :: "16 word" where "h_bu \<equiv> 0x3076"
abbreviation h_he :: "16 word" where "h_he \<equiv> 0x3078"
abbreviation h_be :: "16 word" where "h_be \<equiv> 0x3079"
abbreviation h_pe :: "16 word" where "h_pe \<equiv> 0x307A"
abbreviation h_bo :: "16 word" where "h_bo \<equiv> 0x307C"
abbreviation h_ma :: "16 word" where "h_ma \<equiv> 0x307E"
abbreviation h_mi :: "16 word" where "h_mi \<equiv> 0x307F"
abbreviation h_mu :: "16 word" where "h_mu \<equiv> 0x3080"
abbreviation h_me :: "16 word" where "h_me \<equiv> 0x3081"
abbreviation h_mo :: "16 word" where "h_mo \<equiv> 0x3082"
abbreviation h_xya :: "16 word" where "h_xya \<equiv> 0x3083"
abbreviation h_yo :: "16 word" where "h_yo \<equiv> 0x3088"
abbreviation h_ra :: "16 word" where "h_ra \<equiv> 0x3089"
abbreviation h_ri :: "16 word" where "h_ri \<equiv> 0x308A"
abbreviation h_ru :: "16 word" where "h_ru \<equiv> 0x308B"
abbreviation h_re :: "16 word" where "h_re \<equiv> 0x308C"
abbreviation h_ro :: "16 word" where "h_ro \<equiv> 0x308D"
abbreviation h_wa :: "16 word" where "h_wa \<equiv> 0x308F"
abbreviation h_n :: "16 word" where "h_n \<equiv> 0x3093"
abbreviation kanji_come :: "16 word" where "kanji_come \<equiv> 0x6765"
abbreviation kanji_go :: "16 word" where "kanji_go \<equiv> 0x884C"

text \<open>
  \<^verbatim>\<open>String.prototype.slice(start, end)\<close>: a negative index counts from the end, both
  indices are clamped to the string, and an empty span gives the empty string.
\<close>

definition slice :: "jsstring \<Rightarrow> int \<Rightarrow> int \<Rightarrow> jsstring" where
  "slice s intStart intEnd =
     (let len = int (length s);
          lo = (if intStart < 0 then max (len + intStart) 0 else min intStart len);
          hi = (if intEnd < 0 then max (len + intEnd) 0 else min intEnd len)
      in take (nat (hi - lo)) (drop (nat lo) s))"

text \<open>\<^verbatim>\<open>slice(start)\<close>: the end defaults to the length of the string.\<close>

definition slice_from :: "jsstring \<Rightarrow> int \<Rightarrow> jsstring" where
  "slice_from s intStart = slice s intStart (int (length s))"

text \<open>\<^verbatim>\<open>s.endsWith(t)\<close> and \<^verbatim>\<open>s.includes(t)\<close>.\<close>

definition endsWith :: "jsstring \<Rightarrow> jsstring \<Rightarrow> bool" where
  "endsWith s t = suffix t s"

fun includes_js :: "jsstring \<Rightarrow> jsstring \<Rightarrow> bool" where
  "includes_js [] t = (t = [])"
| "includes_js (c # s) t = (prefix t (c # s) \<or> includes_js s t)"

text \<open>\<^verbatim>\<open>Array.prototype.join(sep)\<close> on an array of strings.\<close>

fun join :: "jsstring list \<Rightarrow> jsstring \<Rightarrow> jsstring" where
  "join [] sep = []"
| "join [x] sep = x"
| "join (x # y # ys) sep = x @ sep @ join (y # ys) sep"

text \<open>
  \<^verbatim>\<open>String.prototype.toLowerCase\<close> is the host's Unicode case mapping; the functions
  below take it as the parameter \<open>toLowerCase\<close>. On a string of ASCII code units it is
  the following function, which is the instance used on concrete inputs.
\<close>

definition toLowerCase_ascii :: "jsstring \<Rightarrow> jsstring" where
  "toLowerCase_ascii s = map (\<lambda>c. if 0x41 \<le> c \<and> c \<le> 0x5A then c + 0x20 else c) s"

section \<open>Conjugation tables (src/lib/configuration.ts)\<close>

record VerbConjugation =
  form :: jsstring
  japanese :: jsstring
  romaji :: jsstring
  usage :: jsstring

definition generateIchidanConjugations :: "jsstring \<Rightarrow> VerbConjugation list" where
  "generateIchidanConjugations stem =
    [ \<lparr>form = js ''Dictionary'', japanese = stem @ [h_ru], romaji = js '''', usage = js ''Plain present/future''\<rparr>,
      \<lparr>form = js ''Masu'', japanese = stem @ [h_ma, h_su], romaji = js '''', usage = js ''Polite present/future''\<rparr>,
      \<lparr>form = js ''Te-form'', japanese = stem @ [h_te], romaji = js '''', usage = js ''Connecting, requests''\<rparr>,
      \<lparr>form = js ''Ta-form'', japanese = stem @ [h_ta], romaji = js '''', usage = js ''Plain past''\<rparr>,
      \<lparr>form = js ''Mashita'', japanese = stem @ [h_ma, h_shi, h_ta], romaji = js '''', usage = js ''Polite past''\<rparr>,
      \<lparr>form = js ''Nai-form'', japanese = stem @ [h_na, h_i], romaji = js '''', usage = js ''Plain negative''\<rparr>,
      \<lparr>form = js ''Masen'', japanese = stem @ [h_ma, h_se, h_n], romaji = js '''', usage = js ''Polite negative''\<rparr>,
      \<lparr>form = js ''Nakatta'', japanese = stem @ [h_na, h_ka, h_xtsu, h_ta], romaji = js '''', usage = js ''Plain past negative''\<rparr>,
      \<lparr>form = js ''Potential'', japanese = stem @ [h_ra, h_re, h_ru], romaji = js '''', usage = js ''Can do''\<rparr>,
      \<lparr>form = js ''Passive'', japanese = stem @ [h_ra, h_re, h_ru], romaji = js '''', usage = js ''Is done''\<rparr>,
      \<lparr>form = js ''Causative'', japanese = stem @ [h_sa, h_se, h_ru], romaji = js '''', usage = js ''Make/let do''\<rparr>,
      \<lparr>form = js ''Imperative'', japanese = stem @ [h_ro], romaji = js '''', usage = js ''Command''\<rparr>,
      \<lparr>form = js ''Volitional'', japanese = stem @ [h_yo, h_u], romaji = js '''', usage = js ''Let's do''\<rparr>,
      \<lparr>form = js ''Conditional'', japanese = stem @ [h_re, h_ba], romaji = js '''', usage = js ''If''\<rparr>,
      \<lparr>form = js ''Tara-form'', japanese = stem @ [h_ta, h_ra], romaji = js '''', usage = js ''If/when''\<rparr> ]"

text \<open>One row of the godan table: the fragments that replace the final kana.\<close>

record GodanRow =
  masu :: jsstring
  te :: jsstring
  ta :: jsstring
  nai :: jsstring
  potential :: jsstring
  volitional :: jsstring
  imperative :: jsstring
  conditional :: jsstring

text \<open>
  The object literal \<^verbatim>\<open>mappings\<close>, keyed by the final kana. Its nine keys are single
  code units; a property inherited from \<^verbatim>\<open>Object.prototype\<close> has a longer name, and
  the key looked up is \<^verbatim>\<open>hiragana.slice(-1)\<close>, of length at most one.
\<close>

definition mappings :: "(jsstring \<times> GodanRow) list" where
  "mappings =
    [ ([h_u], \<lparr>masu = [h_i], te = [h_xtsu, h_te], ta = [h_xtsu, h_ta], nai = [h_wa],
         potential = [h_e], volitional = [h_o], imperative = [h_e], conditional = [h_e]\<rparr>),
      ([h_ku], \<lparr>masu = [h_ki], te = [h_i, h_te], ta = [h_i, h_ta], nai = [h_ka],
         potential = [h_ke], volitional = [h_ko], imperative = [h_ke], conditional = [h_ke]\<rparr>),
      ([h_gu], \<lparr>masu = [h_gi], te = [h_i, h_de], ta = [h_i, h_da], nai = [h_ga],
         potential = [h_ge], volitional = [h_go], imperative = [h_ge], conditional = [h_ge]\<rparr>),
      ([h_su], \<lparr>masu = [h_shi], te = [h_shi, h_te], ta = [h_shi, h_ta], nai = [h_sa],
         potential = [h_se], volitional = [h_so], imperative = [h_se], conditional = [h_se]\<rparr>),
      ([h_tsu], \<lparr>masu = [h_chi], te = [h_xtsu, h_te], ta = [h_xtsu, h_ta], nai = [h_ta],
         potential = [h_te], volitional = [h_to], imperative = [h_te], conditional = [h_te]\<rparr>),
      ([h_nu], \<lparr>masu = [h_ni], te = [h_n, h_de], ta = [h_n, h_da], nai = [h_na],
         potential = [h_ne], volitional = [h_no], imperative = [h_ne], conditional = [h_ne]\<rparr>),
      ([h_bu], \<lparr>masu = [h_bi], te = [h_n, h_de], ta = [h_n, h_da], nai = [h_ba],
         potential = [h_be], volitional = [h_bo], imperative = [h_be], conditional = [h_be]\<rparr>),
      ([h_mu], \<lparr>masu = [h_mi], te = [h_n, h_de], ta = [h_n, h_da], nai = [h_ma],
         potential = [h_me], volitional = [h_mo], imperative = [h_me], conditional = [h_me]\<rparr>),
      ([h_ru], \<lparr>masu = [h_ri], te = [h_xtsu, h_te], ta = [h_xtsu, h_ta], nai = [h_ra],
         potential = [h_re], volitional = [h_ro], imperative = [h_re], conditional = [h_re]\<rparr>) ]"

text \<open>
  The local \<^verbatim>\<open>map\<close> of the source, the row that is looked up, is \<open>row\<close> here, and the
  local \<^verbatim>\<open>prefix\<close> of the suru table is \<open>pre\<close>.
\<close>

definition generateGodanConjugations :: "jsstring \<Rightarrow> VerbConjugation list" where
  "generateGodanConjugations hiragana =
    (let ending = slice_from hiragana (- 1);
         stem = slice hiragana 0 (- 1);
         row = (case map_of mappings ending of
                  Some r \<Rightarrow> r
                | None \<Rightarrow> the (map_of mappings [h_ru]));
         isIku = (hiragana = [h_i, h_ku] \<or> hiragana = [kanji_go, h_ku]);
         teForm = (if isIku then stem @ [h_xtsu, h_te] else stem @ te row);
         taForm = (if isIku then stem @ [h_xtsu, h_ta] else stem @ ta row)
     in
    [ \<lparr>form = js ''Dictionary'', japanese = hiragana, romaji = js '''', usage = js ''Plain present/future''\<rparr>,
      \<lparr>form = js ''Masu'', japanese = stem @ masu row @ [h_ma, h_su], romaji = js '''', usage = js ''Polite present/future''\<rparr>,
      \<lparr>form = js ''Te-form'', japanese = teForm, romaji = js '''', usage = js ''Connecting, requests''\<rparr>,
      \<lparr>form = js ''Ta-form'', japanese = taForm, romaji = js '''', usage = js ''Plain past''\<rparr>,
      \<lparr>form = js ''Mashita'', japanese = stem @ masu row @ [h_ma, h_shi, h_ta], romaji = js '''', usage = js ''Polite past''\<rparr>,
      \<lparr>form = js ''Nai-form'', japanese = stem @ nai row @ [h_na, h_i], romaji = js '''', usage = js ''Plain negative''\<rparr>,
      \<lparr>form = js ''Masen'', japanese = stem @ masu row @ [h_ma, h_se, h_n], romaji = js '''', usage = js ''Polite negative''\<rparr>,
      \<lparr>form = js ''Nakatta'', japanese = stem @ nai row @ [h_na, h_ka, h_xtsu, h_ta], romaji = js '''', usage = js ''Plain past negative''\<rparr>,
      \<lparr>form = js ''Potential'', japanese = stem @ potential row @ [h_ru], romaji = js '''', usage = js ''Can do''\<rparr>,
      \<lparr>form = js ''Passive'', japanese = stem @ nai row @ [h_re, h_ru], romaji = js '''', usage = js ''Is done''\<rparr>,
      \<lparr>form = js ''Causative'', japanese = stem @ nai row @ [h_se, h_ru], romaji = js '''', usage = js ''Make/let do''\<rparr>,
      \<lparr>form = js ''Imperative'', japanese = stem @ imperative row, romaji = js '''', usage = js ''Command''\<rparr>,
      \<lparr>form = js ''Volitional'', japanese = stem @ volitional row @ [h_u], romaji = js '''', usage = js ''Let's do''\<rparr>,
      \<lparr>form = js ''Conditional'', japanese = stem @ conditional row @ [h_ba], romaji = js '''', usage = js ''If''\<rparr>,
      \<lparr>form = js ''Tara-form'', japanese = taForm @ [h_ra], romaji = js '''', usage = js ''If/when''\<rparr> ])"

definition generateSuruConjugations :: "jsstring \<Rightarrow> VerbConjugation list" where
  "generateSuruConjugations stem =
    (let base = (if endsWith stem [h_su] then slice stem 0 (- 1) else stem);
         pre = (if base \<noteq> [] then base else [])
     in
    [ \<lparr>form = js ''Dictionary'', japanese = pre @ [h_su, h_ru], romaji = js '''', usage = js ''Plain present/future''\<rparr>,
      \<lparr>form = js ''Masu'', japanese = pre @ [h_shi, h_ma, h_su], romaji = js '''', usage = js ''Polite present/future''\<rparr>,
      \<lparr>form = js ''Te-form'', japanese = pre @ [h_shi, h_te], romaji = js '''', usage = js ''Connecting, requests''\<rparr>,
      \<lparr>form = js ''Ta-form'', japanese = pre @ [h_shi, h_ta], romaji = js '''', usage = js ''Plain past''\<rparr>,
      \<lparr>form = js ''Mashita'', japanese = pre @ [h_shi, h_ma, h_shi, h_ta], romaji = js '''', usage = js ''Polite past''\<rparr>,
      \<lparr>form = js ''Nai-form'', japanese = pre @ [h_shi, h_na, h_i], romaji = js '''', usage = js ''Plain negative''\<rparr>,
      \<lparr>form = js ''Masen'', japanese = pre @ [h_shi, h_ma, h_se, h_n], romaji = js '''', usage = js ''Polite negative''\<rparr>,
      \<lparr>form = js ''Nakatta'', japanese = pre @ [h_shi, h_na, h_ka, h_xtsu, h_ta], romaji = js '''', usage = js ''Plain past negative''\<rparr>,
      \<lparr>form = js ''Potential'', japanese = pre @ [h_de, h_ki, h_ru], romaji = js '''', usage = js ''Can do''\<rparr>,
      \<lparr>form = js ''Passive'', japanese = pre @ [h_sa, h_re, h_ru], romaji = js '''', usage = js ''Is done''\<rparr>,
      \<lparr>form = js ''Causative'', japanese = pre @ [h_sa, h_se, h_ru], romaji = js '''', usage = js ''Make/let do''\<rparr>,
      \<lparr>form = js ''Imperative'', japanese = pre @ [h_shi, h_ro], romaji = js '''', usage = js ''Command''\<rparr>,
      \<lparr>form = js ''Volitional'', japanese = pre @ [h_shi, h_yo, h_u], romaji = js '''', usage = js ''Let's do''\<rparr>,
      \<lparr>form = js ''Conditional'', japanese = pre @ [h_su, h_re, h_ba], romaji = js '''', usage = js ''If''\<rparr>,
      \<lparr>form = js ''Tara-form'', japanese = pre @ [h_shi, h_ta, h_ra], romaji = js '''', usage = js ''If/when''\<rparr> ])"

definition generateKuruConjugations :: "VerbConjugation list" where
  "generateKuruConjugations =
    [ \<lparr>form = js ''Dictionary'', japanese = [h_ku, h_ru], romaji = js ''kuru'', usage = js ''Plain present/future''\<rparr>,
      \<lparr>form = js ''Masu'', japanese = [h_ki, h_ma, h_su], romaji = js ''kimasu'', usage = js ''Polite present/future''\<rparr>,
      \<lparr>form = js ''Te-form'', japanese = [h_ki, h_te], romaji = js ''kite'', usage = js ''Connecting, requests''\<rparr>,
      \<lparr>form = js ''Ta-form'', japanese = [h_ki, h_ta], romaji = js ''kita'', usage = js ''Plain past''\<rparr>,
      \<lparr>form = js ''Mashita'', japanese = [h_ki, h_ma, h_shi, h_ta], romaji = js ''kimashita'', usage = js ''Polite past''\<rparr>,
      \<lparr>form = js ''Nai-form'', japanese = [h_ko, h_na, h_i], romaji = js ''konai'', usage = js ''Plain negative''\<rparr>,
      \<lparr>form = js ''Masen'', japanese = [h_ki, h_ma, h_se, h_n], romaji = js ''kimasen'', usage = js ''Polite negative''\<rparr>,
      \<lparr>form = js ''Nakatta'', japanese = [h_ko, h_na, h_ka, h_xtsu, h_ta], romaji = js ''konakatta'', usage = js ''Plain past negative''\<rparr>,
      \<lparr>form = js ''Potential'', japanese = [h_ko, h_ra, h_re, h_ru], romaji = js ''korareru'', usage = js ''Can do''\<rparr>,
      \<lparr>form = js ''Passive'', japanese = [h_ko, h_ra, h_re, h_ru], romaji = js ''korareru'', usage = js ''Is done''\<rparr>,
      \<lparr>form = js ''Causative'', japanese = [h_ko, h_sa, h_se, h_ru], romaji = js ''kosaseru'', usage = js ''Make/let do''\<rparr>,
      \<lparr>form = js ''Imperative'', japanese = [h_ko, h_i], romaji = js ''koi'', usage = js ''Command''\<rparr>,
      \<lparr>form = js ''Volitional'', japanese = [h_ko, h_yo, h_u], romaji = js ''koyou'', usage = js ''Let's do''\<rparr>,
      \<lparr>form = js ''Conditional'', japanese = [h_ku, h_re, h_ba], romaji = js ''kureba'', usage = js ''If''\<rparr>,
      \<lparr>form = js ''Tara-form'', japanese = [h_ki, h_ta, h_ra], romaji = js ''kitara'', usage = js ''If/when''\<rparr> ]"

definition generateConjugations :: "jsstring \<Rightarrow> jsstring \<Rightarrow> VerbConjugation list" where
  "generateConjugations hiragana verbType =
    (let stem = slice hiragana 0 (- 1) in
     if verbType = js ''ichidan'' then generateIchidanConjugations stem
     else if verbType = js ''godan'' then generateGodanConjugations hiragana
     else if verbType = js ''suru'' then generateSuruConjugations stem
     else if verbType = js ''kuru'' then generateKuruConjugations
     else [])"

text \<open>The adjective tables take the whole reading; only the i-adjective drops a kana.\<close>

definition generateIAdjectiveConjugations :: "jsstring \<Rightarrow> VerbConjugation list" where
  "generateIAdjectiveConjugations hiragana =
    (let stem = slice hiragana 0 (- 1) in
    [ \<lparr>form = js ''Dictionary'', japanese = hiragana, romaji = js '''', usage = js ''Plain present''\<rparr>,
      \<lparr>form = js ''Polite'', japanese = stem @ [h_i, h_de, h_su], romaji = js '''', usage = js ''Polite present''\<rparr>,
      \<lparr>form = js ''Past'', japanese = stem @ [h_ka, h_xtsu, h_ta], romaji = js '''', usage = js ''Plain past''\<rparr>,
      \<lparr>form = js ''Past Polite'', japanese = stem @ [h_ka, h_xtsu, h_ta, h_de, h_su], romaji = js '''', usage = js ''Polite past''\<rparr>,
      \<lparr>form = js ''Negative'', japanese = stem @ [h_ku, h_na, h_i], romaji = js '''', usage = js ''Plain negative''\<rparr>,
      \<lparr>form = js ''Neg. Polite'', japanese = stem @ [h_ku, h_na, h_i, h_de, h_su], romaji = js '''', usage = js ''Polite negative''\<rparr>,
      \<lparr>form = js ''Past Neg.'', japanese = stem @ [h_ku, h_na, h_ka, h_xtsu, h_ta], romaji = js '''', usage = js ''Plain past neg.''\<rparr>,
      \<lparr>form = js ''Te-form'', japanese = stem @ [h_ku, h_te], romaji = js '''', usage = js ''Connecting''\<rparr>,
      \<lparr>form = js ''Adverb'', japanese = stem @ [h_ku], romaji = js '''', usage = js ''Adverbial form''\<rparr>,
      \<lparr>form = js ''Conditional'', japanese = stem @ [h_ke, h_re, h_ba], romaji = js '''', usage = js ''If''\<rparr> ])"

definition generateNaAdjectiveConjugations :: "jsstring \<Rightarrow> VerbConjugation list" where
  "generateNaAdjectiveConjugations hiragana =
    [ \<lparr>form = js ''Dictionary'', japanese = hiragana, romaji = js '''', usage = js ''Plain/attributive''\<rparr>,
      \<lparr>form = js ''Polite'', japanese = hiragana @ [h_de, h_su], romaji = js '''', usage = js ''Polite present''\<rparr>,
      \<lparr>form = js ''Past'', japanese = hiragana @ [h_da, h_xtsu, h_ta], romaji = js '''', usage = js ''Plain past''\<rparr>,
      \<lparr>form = js ''Past Polite'', japanese = hiragana @ [h_de, h_shi, h_ta], romaji = js '''', usage = js ''Polite past''\<rparr>,
      \<lparr>form = js ''Negative'', japanese = hiragana @ [h_ji, h_xya, h_na, h_i], romaji = js '''', usage = js ''Plain negative''\<rparr>,
      \<lparr>form = js ''Neg. Polite'', japanese = hiragana @ [h_ji, h_xya, h_a, h_ri, h_ma, h_se, h_n], romaji = js '''', usage = js ''Polite negative''\<rparr>,
      \<lparr>form = js ''Past Neg.'', japanese = hiragana @ [h_ji, h_xya, h_na, h_ka, h_xtsu, h_ta], romaji = js '''', usage = js ''Plain past neg.''\<rparr>,
      \<lparr>form = js ''Te-form'', japanese = hiragana @ [h_de], romaji = js '''', usage = js ''Connecting''\<rparr>,
      \<lparr>form = js ''Adverb'', japanese = hiragana @ [h_ni], romaji = js '''', usage = js ''Adverbial form''\<rparr>,
      \<lparr>form = js ''Attributive'', japanese = hiragana @ [h_na], romaji = js '''', usage = js ''Before nouns''\<rparr> ]"

section \<open>Verb type detection (src/lib/configuration.ts)\<close>

text \<open>The array \<^verbatim>\<open>ichiSounds\<close>, in the order of the source.\<close>

definition ichiSounds :: "jsstring list" where
  "ichiSounds =
    [ [h_i], [h_e], [h_ki], [h_ke], [h_gi], [h_ge], [h_shi], [h_se], [h_ji], [h_ze],
      [h_chi], [h_te], [h_di], [h_de], [h_ni], [h_ne], [h_hi], [h_he], [h_bi], [h_be],
      [h_pi], [h_pe], [h_mi], [h_me], [h_ri], [h_re] ]"

text \<open>
  The result \<^verbatim>\<open>string | null\<close> is an option. The checks run in the order of the
  source: the tags first, then the ending \<open>ru\<close>, then the other godan endings, then
  \<open>suru\<close> and \<open>kuru\<close>.
\<close>

definition detectVerbType :: "(jsstring \<Rightarrow> jsstring) \<Rightarrow> jsstring \<Rightarrow> jsstring list \<Rightarrow> jsstring option" where
  "detectVerbType toLowerCase hiragana tags =
    (let tagStr = toLowerCase (join tags (js '' '')) in
     if includes_js tagStr (js ''godan'') \<or> includes_js tagStr (js ''v5'') then Some (js ''godan'')
     else if includes_js tagStr (js ''ichidan'') \<or> includes_js tagStr (js ''v1'') then Some (js ''ichidan'')
     else if includes_js tagStr (js ''suru'') \<or> includes_js tagStr (js ''vs'') then Some (js ''suru'')
     else if includes_js tagStr (js ''kuru'') \<or> includes_js tagStr (js ''vk'') then Some (js ''kuru'')
     else if endsWith hiragana [h_ru] then
       (let stem = slice hiragana 0 (- 1);
            lastChar = slice_from stem (- 1)
        in if list_ex (\<lambda>s. includes_js lastChar s \<or> endsWith stem s) ichiSounds
           then Some (js ''ichidan'')
           else Some (js ''godan''))
     else if endsWith hiragana [h_u] \<or> endsWith hiragana [h_ku] \<or> endsWith hiragana [h_su] \<or>
             endsWith hiragana [h_tsu] \<or> endsWith hiragana [h_nu] \<or> endsWith hiragana [h_bu] \<or>
             endsWith hiragana [h_mu] \<or> endsWith hiragana [h_gu]
       then Some (js ''godan'')
     else if endsWith hiragana [h_su, h_ru] then Some (js ''suru'')
     else if hiragana = [h_ku, h_ru] \<or> hiragana = [kanji_come, h_ru] then Some (js ''kuru'')
     else None)"

section \<open>Category detection (src/app/api/dictionary/lookup/route.ts)\<close>

datatype WordCategory =
  Verb | Noun | Adjective_i | Adjective_na | Adverb | Particle | Expression | Counter | Other

text \<open>The result object \<^verbatim>\<open>{ category, verbType? }\<close>; an absent \<open>verbType\<close> is \<open>None\<close>.\<close>

record CategoryResult =
  category :: WordCategory
  verbType :: "jsstring option"

definition detectCategory :: "(jsstring \<Rightarrow> jsstring) \<Rightarrow> jsstring list \<Rightarrow> CategoryResult" where
  "detectCategory toLowerCase partsOfSpeech =
    (let pos = toLowerCase (join partsOfSpeech (js '' '')) in
     if includes_js pos (js ''ichidan'') \<or> includes_js pos (js ''v1'')
       then \<lparr>category = Verb, verbType = Some (js ''ichidan'')\<rparr>
     else if includes_js pos (js ''godan'') \<or> includes_js pos (js ''v5'')
       then \<lparr>category = Verb, verbType = Some (js ''godan'')\<rparr>
     else if includes_js pos (js ''suru'') \<or> includes_js pos (js ''vs-'')
       then \<lparr>category = Verb, verbType = Some (js ''suru'')\<rparr>
     else if includes_js pos (js ''kuru'') \<or> includes_js pos (js ''vk'')
       then \<lparr>category = Verb, verbType = Some (js ''kuru'')\<rparr>
     else if includes_js pos (js ''counter'') then \<lparr>category = Counter, verbType = None\<rparr>
     else if includes_js pos (js ''adverb'') then \<lparr>category = Adverb, verbType = None\<rparr>
     else if includes_js pos (js ''particle'') then \<lparr>category = Particle, verbType = None\<rparr>
     else if includes_js pos (js ''expression'') then \<lparr>category = Expression, verbType = None\<rparr>
     else if includes_js pos (js ''i-adjective'') \<or> includes_js pos (js ''adj-i'')
       then \<lparr>category = Adjective_i, verbType = None\<rparr>
     else if includes_js pos (js ''na-adjective'') \<or> includes_js pos (js ''adj-na'')
       then \<lparr>category = Adjective_na, verbType = None\<rparr>
     else if includes_js pos (js ''noun'') then \<lparr>category = Noun, verbType = None\<rparr>
     else if includes_js pos (js ''verb'') then \<lparr>category = Verb, verbType = Some (js ''godan'')\<rparr>
     else \<lparr>category = Other, verbType = None\<rparr>)"

section \<open>The conjugation table of the word detail dialog\<close>

text \<open>
  The fields of \<^verbatim>\<open>Word\<close> (src/lib/types.ts) that the dialog reads to build the table.
  The fields \<^verbatim>\<open>hiragana\<close> and \<^verbatim>\<open>category\<close> carry the prefix \<open>word_\<close>, since the names are
  taken by the parameters and the result record above; \<^verbatim>\<open>verb_type: string | null\<close> is an
  option.
\<close>

record Word =
  word_hiragana :: jsstring
  word_category :: WordCategory
  verb_type :: "jsstring option"

text \<open>A value \<^verbatim>\<open>string | null\<close> used as a condition: null and the empty string are falsy.\<close>

definition truthy :: "jsstring option \<Rightarrow> bool" where
  "truthy v = (case v of None \<Rightarrow> False | Some s \<Rightarrow> s \<noteq> [])"

text \<open>
  The value of \<^verbatim>\<open>conjugations\<close> in \<^verbatim>\<open>WordDetailDialog\<close> for a word that is present: it
  starts as the empty array and is assigned in one of three branches.
\<close>

definition WordDetailDialog_conjugations :: "Word \<Rightarrow> VerbConjugation list" where
  "WordDetailDialog_conjugations word =
    (if word_category word = Verb \<and> truthy (verb_type word) then
       (case verb_type word of
          Some vt \<Rightarrow> generateConjugations (word_hiragana word) vt
        | None \<Rightarrow> [])
     else if word_category word = Adjective_i then generateIAdjectiveConjugations (word_hiragana word)
     else if word_category word = Adjective_na then generateNaAdjectiveConjugations (word_hiragana word)
     else [])"

section \<open>Classification when a lookup result is selected (the word form)\<close>

text \<open>
  The fields of \<^verbatim>\<open>DictionaryResult\<close> that \<^verbatim>\<open>selectResult\<close> reads to classify, prefixed
  with \<open>result_\<close>. The function tests \<^verbatim>\<open>!result.category\<close>, so the category may be
  absent at run time and is an option, as is the optional \<^verbatim>\<open>verbType\<close>.
\<close>

record DictionaryResult =
  result_hiragana :: jsstring
  result_tags :: "jsstring list"
  result_partsOfSpeech :: "jsstring list"
  result_category :: "WordCategory option"
  result_verbType :: "jsstring option"

text \<open>
  The pair \<^verbatim>\<open>(category, verbType)\<close> that \<^verbatim>\<open>selectResult\<close> stores in the form data. The two
  mutable locals are threaded through: \<open>category0\<close>, \<open>verbType0\<close> are their initial
  values, \<open>category1\<close>, \<open>verbType1\<close> their values after the first conditional.
\<close>

definition selectResult :: "(jsstring \<Rightarrow> jsstring) \<Rightarrow> DictionaryResult \<Rightarrow> WordCategory \<times> jsstring option" where
  "selectResult toLowerCase result =
    (let category0 = (case result_category result of Some c \<Rightarrow> c | None \<Rightarrow> Other);
         verbType0 = (if truthy (result_verbType result) then result_verbType result else None);
         (category1, verbType1) =
           (if result_category result = None \<or> result_category result = Some Other then
              (let pos = toLowerCase (join (result_partsOfSpeech result) (js '' ''));
                   tags = result_tags result
               in if includes_js pos (js ''counter'') then (Counter, verbType0)
                  else if includes_js pos (js ''adverb'') \<or> includes_js pos (js ''adv'')
                    then (Adverb, verbType0)
                  else if includes_js pos (js ''particle'') then (Particle, verbType0)
                  else if includes_js pos (js ''expression'') \<or> includes_js pos (js ''exp'')
                    then (Expression, verbType0)
                  else if includes_js pos (js ''i-adjective'') \<or> includes_js pos (js ''adj-i'')
                    then (Adjective_i, verbType0)
                  else if includes_js pos (js ''na-adjective'') \<or> includes_js pos (js ''adj-na'')
                    then (Adjective_na, verbType0)
                  else if includes_js pos (js ''verb'') \<or> includes_js pos (js ''v1'') \<or>
                          includes_js pos (js ''v5'') \<or> includes_js pos (js ''vs'')
                    then (Verb,
                          if \<not> truthy verbType0
                          then detectVerbType toLowerCase (result_hiragana result)
                                 (result_partsOfSpeech result @ tags)
                          else verbType0)
                  else if includes_js pos (js ''noun'') \<or> includes_js pos (js ''n '')
                    then (Noun, verbType0)
                  else (category0, verbType0))
            else (category0, verbType0));
         verbType2 =
           (if category1 = Verb \<and> \<not> truthy verbType1
            then detectVerbType toLowerCase (result_hiragana result)
                   (result_partsOfSpeech result @ result_tags result)
            else verbType1)
     in (category1, verbType2))"

section \<open>Properties of the string primitives\<close>

lemma slice_0_m1: "slice s 0 (- 1) = butlast s"
  by (simp add: slice_def Let_def butlast_conv_take nat_diff_distrib' max_def)

lemma slice_from_m1: "slice_from s (- 1) = (if s = [] then [] else [last s])"
proof (cases s rule: rev_cases)
  case Nil
  then show ?thesis by (simp add: slice_from_def slice_def)
next
  case (snoc xs x)
  then show ?thesis by (simp add: slice_from_def slice_def Let_def)
qed

text \<open>The recursive substring test is the usual one: some prefix and suffix surround \<open>t\<close>.\<close>

lemma includes_js_sublist: "includes_js s t \<longleftrightarrow> sublist t s"
  by (induction s) (simp_all add: sublist_Cons_right)

lemma includes_js_iff: "includes_js s t \<longleftrightarrow> (\<exists>a b. s = a @ t @ b)"
  by (simp add: includes_js_sublist sublist_def)

lemma includes_js_single: "includes_js [x] [y] \<longleftrightarrow> x = y"
  by auto

lemma endsWith_snoc: "endsWith (xs @ [x]) [y] \<longleftrightarrow> x = y"
  by (simp add: endsWith_def suffix_def)

lemma endsWith_single: "endsWith s [y] \<longleftrightarrow> s \<noteq> [] \<and> last s = y"
  by (cases s rule: rev_cases) (simp_all add: endsWith_def suffix_def)

lemma verbType_godan_not_ichidan: "js ''godan'' \<noteq> js ''ichidan''"
  by (simp add: js_def)


section \<open>Conjugation of godan verbs\<close>

text \<open>
  C1. For the godan verb \<open>nomu\<close> (to drink) the table is built from the stem \<open>no\<close> and
  the fragments of the \<open>mu\<close> row: Dictionary \<open>nomu\<close>, Masu \<open>nomimasu\<close>, Te-form
  \<open>nonde\<close>, Ta-form \<open>nonda\<close>, Nai-form \<open>nomanai\<close>, Potential \<open>nomeru\<close>, Imperative
  \<open>nome\<close>, Volitional \<open>nomou\<close>, Conditional \<open>nomeba\<close>.
\<close>

theorem godan_nomu_table:
  "map (\<lambda>c. (form c, japanese c)) (generateConjugations [h_no, h_mu] (js ''godan'')) =
    [ (js ''Dictionary'', [h_no, h_mu]),
      (js ''Masu'', [h_no] @ [h_mi] @ [h_ma, h_su]),
      (js ''Te-form'', [h_no] @ [h_n, h_de]),
      (js ''Ta-form'', [h_no] @ [h_n, h_da]),
      (js ''Mashita'', [h_no] @ [h_mi] @ [h_ma, h_shi, h_ta]),
      (js ''Nai-form'', [h_no] @ [h_ma] @ [h_na, h_i]),
      (js ''Masen'', [h_no] @ [h_mi] @ [h_ma, h_se, h_n]),
      (js ''Nakatta'', [h_no] @ [h_ma] @ [h_na, h_ka, h_xtsu, h_ta]),
      (js ''Potential'', [h_no] @ [h_me] @ [h_ru]),
      (js ''Passive'', [h_no] @ [h_ma] @ [h_re, h_ru]),
      (js ''Causative'', [h_no] @ [h_ma] @ [h_se, h_ru]),
      (js ''Imperative'', [h_no] @ [h_me]),
      (js ''Volitional'', [h_no] @ [h_mo] @ [h_u]),
      (js ''Conditional'', [h_no] @ [h_me] @ [h_ba]),
      (js ''Tara-form'', [h_no] @ [h_n, h_da] @ [h_ra]) ]"
  by (simp add: generateConjugations_def generateGodanConjugations_def mappings_def
      slice_0_m1 slice_from_m1 js_def)

text \<open>
  C2, as the code has it. For a godan reading ending in \<open>ku\<close> the Te-form, Ta-form and
  Tara-form are rows 2, 3 and 14. Exactly for the two readings \<open>iku\<close> (in kana) and
  \<open>iku\<close> (kanji \<open>go\<close> followed by \<open>ku\<close>) the fragments are replaced by small-tsu + te and
  small-tsu + ta, appended to the stem: the kana reading gives \<open>itte\<close>, \<open>itta\<close>,
  \<open>ittara\<close>, and the kanji reading keeps its kanji as the stem. Every other reading
  ending in \<open>ku\<close> gets the generic stem + \<open>ite\<close> and stem + \<open>ita\<close>.
\<close>

theorem godan_ku_te_ta:
  assumes "endsWith reading [h_ku]"
  shows "form (generateConjugations reading (js ''godan'') ! 2) = js ''Te-form''
    \<and> form (generateConjugations reading (js ''godan'') ! 3) = js ''Ta-form''
    \<and> form (generateConjugations reading (js ''godan'') ! 14) = js ''Tara-form''
    \<and> (if reading = [h_i, h_ku] \<or> reading = [kanji_go, h_ku]
       then japanese (generateConjugations reading (js ''godan'') ! 2) = slice reading 0 (- 1) @ [h_xtsu, h_te]
          \<and> japanese (generateConjugations reading (js ''godan'') ! 3) = slice reading 0 (- 1) @ [h_xtsu, h_ta]
          \<and> japanese (generateConjugations reading (js ''godan'') ! 14) = slice reading 0 (- 1) @ [h_xtsu, h_ta, h_ra]
       else japanese (generateConjugations reading (js ''godan'') ! 2) = slice reading 0 (- 1) @ [h_i, h_te]
          \<and> japanese (generateConjugations reading (js ''godan'') ! 3) = slice reading 0 (- 1) @ [h_i, h_ta])
    \<and> (reading = [h_i, h_ku] \<longrightarrow>
          japanese (generateConjugations reading (js ''godan'') ! 2) = [h_i, h_xtsu, h_te]
        \<and> japanese (generateConjugations reading (js ''godan'') ! 3) = [h_i, h_xtsu, h_ta]
        \<and> japanese (generateConjugations reading (js ''godan'') ! 14) = [h_i, h_xtsu, h_ta, h_ra])
    \<and> (reading = [kanji_go, h_ku] \<longrightarrow>
          japanese (generateConjugations reading (js ''godan'') ! 2) = [kanji_go, h_xtsu, h_te]
        \<and> japanese (generateConjugations reading (js ''godan'') ! 3) = [kanji_go, h_xtsu, h_ta]
        \<and> japanese (generateConjugations reading (js ''godan'') ! 14) = [kanji_go, h_xtsu, h_ta, h_ra])"
proof -
  from assms have ne: "reading \<noteq> []" and l: "last reading = h_ku"
    by (simp_all add: endsWith_single)
  have row: "map_of mappings (slice_from reading (- 1)) =
      Some \<lparr>masu = [h_ki], te = [h_i, h_te], ta = [h_i, h_ta], nai = [h_ka],
         potential = [h_ke], volitional = [h_ko], imperative = [h_ke], conditional = [h_ke]\<rparr>"
    by (simp add: slice_from_m1 ne l mappings_def)
  show ?thesis
    by (auto simp: generateConjugations_def generateGodanConjugations_def Let_def
        verbType_godan_not_ichidan row slice_0_m1)
qed

text \<open>The three cases at \<open>iku\<close> in kana, \<open>iku\<close> with its kanji, and \<open>kaku\<close> (to write).\<close>

theorem godan_ku_te_ta_witness:
  "endsWith [h_i, h_ku] [h_ku]
   \<and> japanese (generateConjugations [h_i, h_ku] (js ''godan'') ! 2) = [h_i, h_xtsu, h_te]
   \<and> japanese (generateConjugations [h_i, h_ku] (js ''godan'') ! 3) = [h_i, h_xtsu, h_ta]
   \<and> japanese (generateConjugations [h_i, h_ku] (js ''godan'') ! 14) = [h_i, h_xtsu, h_ta, h_ra]
   \<and> endsWith [kanji_go, h_ku] [h_ku]
   \<and> japanese (generateConjugations [kanji_go, h_ku] (js ''godan'') ! 2) = [kanji_go, h_xtsu, h_te]
   \<and> japanese (generateConjugations [kanji_go, h_ku] (js ''godan'') ! 3) = [kanji_go, h_xtsu, h_ta]
   \<and> japanese (generateConjugations [kanji_go, h_ku] (js ''godan'') ! 14) = [kanji_go, h_xtsu, h_ta, h_ra]
   \<and> endsWith [h_ka, h_ku] [h_ku]
   \<and> japanese (generateConjugations [h_ka, h_ku] (js ''godan'') ! 2) = [h_ka, h_i, h_te]
   \<and> japanese (generateConjugations [h_ka, h_ku] (js ''godan'') ! 3) = [h_ka, h_i, h_ta]"
proof -
  have a: "endsWith [h_i, h_ku] [h_ku]" and b: "endsWith [kanji_go, h_ku] [h_ku]"
    and c: "endsWith [h_ka, h_ku] [h_ku]"
    by (simp_all add: endsWith_def suffix_to_prefix)
  show ?thesis
    using a b c godan_ku_te_ta [OF a] godan_ku_te_ta [OF b] godan_ku_te_ta [OF c]
    by (simp add: slice_0_m1)
qed

text \<open>
  As the claim words it, both readings give the kana strings \<open>itte\<close> and \<open>itta\<close>. For
  the reading written with the kanji the stem is the kanji, so the Te-form and Ta-form
  begin with it and differ from the kana strings.
\<close>

theorem godan_iku_kanji_counterexample:
  "form (generateConjugations [kanji_go, h_ku] (js ''godan'') ! 2) = js ''Te-form''
   \<and> japanese (generateConjugations [kanji_go, h_ku] (js ''godan'') ! 2) = [kanji_go, h_xtsu, h_te]
   \<and> japanese (generateConjugations [kanji_go, h_ku] (js ''godan'') ! 2) \<noteq> [h_i, h_xtsu, h_te]
   \<and> japanese (generateConjugations [kanji_go, h_ku] (js ''godan'') ! 3) \<noteq> [h_i, h_xtsu, h_ta]"
  by (simp add: generateConjugations_def generateGodanConjugations_def mappings_def
      slice_0_m1 slice_from_m1 js_def)

section \<open>The fallback of the godan table\<close>

lemma godan_lookup_fallback:
  assumes "reading = [] \<or> last reading \<notin> {h_u, h_ku, h_gu, h_su, h_tsu, h_nu, h_bu, h_mu, h_ru}"
  shows "map_of mappings (slice_from reading (- 1)) = None"
  using assms by (auto simp: slice_from_m1 mappings_def)

text \<open>The key \<open>ru\<close> is in the table, so the fallback row is always there.\<close>

lemma mappings_ru:
  "map_of mappings [h_ru] =
     Some \<lparr>masu = [h_ri], te = [h_xtsu, h_te], ta = [h_xtsu, h_ta], nai = [h_ra],
       potential = [h_re], volitional = [h_ro], imperative = [h_re], conditional = [h_re]\<rparr>"
  by (simp add: mappings_def)

text \<open>
  C10. A reading that is empty, or whose last code unit is none of the nine keys of the
  godan table, still gets a table of 15 rows from \<open>generateConjugations\<close> with verb
  type godan: the lookup falls back to the \<open>ru\<close> row, so every form is the reading
  without its last code unit followed by the \<open>ru\<close>-row fragment and the fixed suffix.
\<close>

theorem godan_unmapped_ending:
  assumes "reading = [] \<or> last reading \<notin> {h_u, h_ku, h_gu, h_su, h_tsu, h_nu, h_bu, h_mu, h_ru}"
  shows "length (generateConjugations reading (js ''godan'')) = 15
    \<and> map (\<lambda>c. (form c, japanese c)) (generateConjugations reading (js ''godan'')) =
      [ (js ''Dictionary'', reading),
        (js ''Masu'', butlast reading @ [h_ri] @ [h_ma, h_su]),
        (js ''Te-form'', butlast reading @ [h_xtsu, h_te]),
        (js ''Ta-form'', butlast reading @ [h_xtsu, h_ta]),
        (js ''Mashita'', butlast reading @ [h_ri] @ [h_ma, h_shi, h_ta]),
        (js ''Nai-form'', butlast reading @ [h_ra] @ [h_na, h_i]),
        (js ''Masen'', butlast reading @ [h_ri] @ [h_ma, h_se, h_n]),
        (js ''Nakatta'', butlast reading @ [h_ra] @ [h_na, h_ka, h_xtsu, h_ta]),
        (js ''Potential'', butlast reading @ [h_re] @ [h_ru]),
        (js ''Passive'', butlast reading @ [h_ra] @ [h_re, h_ru]),
        (js ''Causative'', butlast reading @ [h_ra] @ [h_se, h_ru]),
        (js ''Imperative'', butlast reading @ [h_re]),
        (js ''Volitional'', butlast reading @ [h_ro] @ [h_u]),
        (js ''Conditional'', butlast reading @ [h_re] @ [h_ba]),
        (js ''Tara-form'', butlast reading @ [h_xtsu, h_ta] @ [h_ra]) ]"
proof -
  have iku: "reading \<noteq> [h_i, h_ku]" "reading \<noteq> [kanji_go, h_ku]"
    using assms by auto
  show ?thesis
    by (simp add: generateConjugations_def generateGodanConjugations_def Let_def
        verbType_godan_not_ichidan godan_lookup_fallback [OF assms] mappings_ru iku slice_0_m1)
qed

text \<open>The empty reading, and \<open>tabeta\<close>, whose last kana \<open>ta\<close> is no key of the table.\<close>

theorem godan_unmapped_ending_witness:
  "map (\<lambda>c. (form c, japanese c)) (generateConjugations [] (js ''godan'')) ! 1
      = (js ''Masu'', [h_ri, h_ma, h_su])
   \<and> last [h_ta, h_be, h_ta] \<notin> {h_u, h_ku, h_gu, h_su, h_tsu, h_nu, h_bu, h_mu, h_ru}
   \<and> length (generateConjugations [h_ta, h_be, h_ta] (js ''godan'')) = 15
   \<and> map (\<lambda>c. (form c, japanese c)) (generateConjugations [h_ta, h_be, h_ta] (js ''godan'')) ! 2
      = (js ''Te-form'', [h_ta, h_be, h_xtsu, h_te])"
proof -
  have a: "([]::jsstring) = [] \<or> last ([]::jsstring) \<notin> {h_u, h_ku, h_gu, h_su, h_tsu, h_nu, h_bu, h_mu, h_ru}"
    by simp
  have b: "[h_ta, h_be, h_ta] = [] \<or> last [h_ta, h_be, h_ta] \<notin> {h_u, h_ku, h_gu, h_su, h_tsu, h_nu, h_bu, h_mu, h_ru}"
    by simp
  show ?thesis
    using godan_unmapped_ending [OF a] godan_unmapped_ending [OF b] by simp
qed

section \<open>Conjugation of ichidan, suru and kuru verbs\<close>

text \<open>
  C4, as the code has it. For every reading the ichidan table has exactly 15 rows and
  row 0 is labelled Dictionary. Its text is the reading without its last code unit,
  followed by \<open>ru\<close>; that is the original reading exactly when the reading ends in \<open>ru\<close>.
\<close>

theorem ichidan_table_shape:
  "length (generateConjugations reading (js ''ichidan'')) = 15
   \<and> form (generateConjugations reading (js ''ichidan'') ! 0) = js ''Dictionary''
   \<and> japanese (generateConjugations reading (js ''ichidan'') ! 0) = slice reading 0 (- 1) @ [h_ru]
   \<and> (japanese (generateConjugations reading (js ''ichidan'') ! 0) = reading
        \<longleftrightarrow> endsWith reading [h_ru])"
proof -
  have "butlast reading @ [h_ru] = reading \<longleftrightarrow> endsWith reading [h_ru]"
    by (cases reading rule: rev_cases) (simp_all add: endsWith_def suffix_def)
  then show ?thesis
    by (simp add: generateConjugations_def generateIchidanConjugations_def Let_def slice_0_m1)
qed

text \<open>The ichidan verb \<open>taberu\<close> (to eat) comes back unchanged in row 0.\<close>

theorem ichidan_table_shape_witness:
  "endsWith [h_ta, h_be, h_ru] [h_ru]
   \<and> length (generateConjugations [h_ta, h_be, h_ru] (js ''ichidan'')) = 15
   \<and> japanese (generateConjugations [h_ta, h_be, h_ru] (js ''ichidan'') ! 0) = [h_ta, h_be, h_ru]"
proof -
  have a: "endsWith [h_ta, h_be, h_ru] [h_ru]"
    by (simp add: endsWith_def suffix_to_prefix)
  show ?thesis
    using a ichidan_table_shape [of "[h_ta, h_be, h_ru]"] by (simp add: slice_0_m1)
qed

text \<open>
  For a reading that does not end in \<open>ru\<close> row 0 is not the input: \<open>nomu\<close> with verb
  type ichidan gives \<open>noru\<close>.
\<close>

theorem ichidan_dictionary_counterexample:
  "japanese (generateConjugations [h_no, h_mu] (js ''ichidan'') ! 0) = [h_no, h_ru]
   \<and> japanese (generateConjugations [h_no, h_mu] (js ''ichidan'') ! 0) \<noteq> [h_no, h_mu]"
  by (simp add: generateConjugations_def generateIchidanConjugations_def slice_0_m1)

text \<open>
  C8. With verb type kuru the table does not depend on the reading: for any reading it
  is the fixed table of 15 forms \<open>kuru\<close>, \<open>kimasu\<close>, \<open>kite\<close>, \<open>kita\<close>, \<open>kimashita\<close>,
  \<open>konai\<close>, \<open>kimasen\<close>, \<open>konakatta\<close>, \<open>korareru\<close>, \<open>korareru\<close>, \<open>kosaseru\<close>, \<open>koi\<close>,
  \<open>koyou\<close>, \<open>kureba\<close>, \<open>kitara\<close>, and any two readings give the same table.
\<close>

theorem kuru_table_fixed:
  "map (\<lambda>c. (form c, japanese c)) (generateConjugations reading (js ''kuru'')) =
    [ (js ''Dictionary'', [h_ku, h_ru]),
      (js ''Masu'', [h_ki, h_ma, h_su]),
      (js ''Te-form'', [h_ki, h_te]),
      (js ''Ta-form'', [h_ki, h_ta]),
      (js ''Mashita'', [h_ki, h_ma, h_shi, h_ta]),
      (js ''Nai-form'', [h_ko, h_na, h_i]),
      (js ''Masen'', [h_ki, h_ma, h_se, h_n]),
      (js ''Nakatta'', [h_ko, h_na, h_ka, h_xtsu, h_ta]),
      (js ''Potential'', [h_ko, h_ra, h_re, h_ru]),
      (js ''Passive'', [h_ko, h_ra, h_re, h_ru]),
      (js ''Causative'', [h_ko, h_sa, h_se, h_ru]),
      (js ''Imperative'', [h_ko, h_i]),
      (js ''Volitional'', [h_ko, h_yo, h_u]),
      (js ''Conditional'', [h_ku, h_re, h_ba]),
      (js ''Tara-form'', [h_ki, h_ta, h_ra]) ]
   \<and> generateConjugations reading (js ''kuru'') = generateConjugations reading' (js ''kuru'')"
  by (simp add: generateConjugations_def generateKuruConjugations_def js_def)

text \<open>
  C9. For every reading that ends in \<open>suru\<close>, the bare \<open>suru\<close> included, the table for
  verb type suru has 15 rows and row 0, labelled Dictionary, is the reading itself:
  dropping the final \<open>ru\<close>, then the trailing \<open>su\<close>, and appending \<open>suru\<close> gives the
  input back.
\<close>

theorem suru_roundtrip:
  assumes "endsWith reading [h_su, h_ru]"
  shows "length (generateConjugations reading (js ''suru'')) = 15
       \<and> form (generateConjugations reading (js ''suru'') ! 0) = js ''Dictionary''
       \<and> japanese (generateConjugations reading (js ''suru'') ! 0) = reading"
proof -
  from assms obtain p where r: "reading = p @ [h_su, h_ru]"
    by (auto simp: endsWith_def suffix_def)
  have "butlast reading = p @ [h_su]"
    by (simp add: r butlast_append)
  then show ?thesis
    by (simp add: generateConjugations_def generateSuruConjugations_def slice_0_m1
        endsWith_snoc r js_def)
qed

text \<open>The compound \<open>benkyousuru\<close> (to study) and the bare \<open>suru\<close>.\<close>

theorem suru_roundtrip_witness:
  "endsWith [h_be, h_n, h_ki, h_yo, h_u, h_su, h_ru] [h_su, h_ru]
   \<and> japanese (generateConjugations [h_be, h_n, h_ki, h_yo, h_u, h_su, h_ru] (js ''suru'') ! 0)
       = [h_be, h_n, h_ki, h_yo, h_u, h_su, h_ru]
   \<and> endsWith [h_su, h_ru] [h_su, h_ru]
   \<and> japanese (generateConjugations [h_su, h_ru] (js ''suru'') ! 0) = [h_su, h_ru]"
proof -
  have a: "endsWith [h_be, h_n, h_ki, h_yo, h_u, h_su, h_ru] [h_su, h_ru]"
    by (simp add: endsWith_def suffix_to_prefix)
  have b: "endsWith [h_su, h_ru] [h_su, h_ru]"
    by (simp add: endsWith_def)
  show ?thesis
    using a b suru_roundtrip [OF a] suru_roundtrip [OF b] by simp
qed

section \<open>Detection of the verb type from the ending\<close>

text \<open>
  What the test over \<^verbatim>\<open>ichiSounds\<close> decides: the stem is not empty and its last code
  unit is one of the 26 kana of the array.
\<close>

lemma ichiSounds_some:
  "list_ex (\<lambda>s. includes_js (slice_from stem (- 1)) s \<or> endsWith stem s) ichiSounds
     \<longleftrightarrow> stem \<noteq> [] \<and> last stem \<in> {h_i, h_e, h_ki, h_ke, h_gi, h_ge, h_shi, h_se, h_ji, h_ze,
            h_chi, h_te, h_di, h_de, h_ni, h_ne, h_hi, h_he, h_bi, h_be, h_pi, h_pe, h_mi, h_me,
            h_ri, h_re}"
proof (cases "stem = []")
  case True
  then show ?thesis
    by (simp add: slice_from_m1 ichiSounds_def endsWith_def)
next
  case False
  then show ?thesis
    by (simp add: slice_from_m1 ichiSounds_def endsWith_single includes_js_single
        del: includes_js.simps)
qed

text \<open>
  C3, as the code has it. When the lower-cased tag string contains none of the eight
  keywords godan, v5, ichidan, v1, suru, vs, kuru, vk, a reading ending in \<open>ru\<close> is
  detected as ichidan exactly when the last kana of its stem (the reading without the
  final \<open>ru\<close>) is one of the 26 kana i, e, ki, ke, gi, ge, shi, se, ji, ze, chi, te, di,
  de, ni, ne, hi, he, bi, be, pi, pe, mi, me, ri, re, and as godan otherwise.
\<close>

theorem detect_ru_ending:
  assumes "\<forall>k \<in> set [js ''godan'', js ''v5'', js ''ichidan'', js ''v1'', js ''suru'', js ''vs'',
              js ''kuru'', js ''vk'']. \<not> includes_js (toLowerCase (join tags (js '' ''))) k"
    and "endsWith reading [h_ru]"
  shows "detectVerbType toLowerCase reading tags =
     (if slice reading 0 (- 1) \<noteq> [] \<and>
         last (slice reading 0 (- 1)) \<in> {h_i, h_e, h_ki, h_ke, h_gi, h_ge, h_shi, h_se, h_ji, h_ze,
            h_chi, h_te, h_di, h_de, h_ni, h_ne, h_hi, h_he, h_bi, h_be, h_pi, h_pe, h_mi, h_me,
            h_ri, h_re}
      then Some (js ''ichidan'') else Some (js ''godan''))"
  using assms by (simp add: detectVerbType_def Let_def ichiSounds_some)

text \<open>With the single tag \<open>common\<close>: \<open>taberu\<close> is detected as ichidan, \<open>toru\<close> as godan.\<close>

theorem detect_ru_ending_witness:
  "endsWith [h_ta, h_be, h_ru] [h_ru]
   \<and> detectVerbType toLowerCase_ascii [h_ta, h_be, h_ru] [js ''common''] = Some (js ''ichidan'')
   \<and> endsWith [h_to, h_ru] [h_ru]
   \<and> detectVerbType toLowerCase_ascii [h_to, h_ru] [js ''common''] = Some (js ''godan'')"
proof -
  have t: "\<forall>k \<in> set [js ''godan'', js ''v5'', js ''ichidan'', js ''v1'', js ''suru'', js ''vs'',
              js ''kuru'', js ''vk'']. \<not> includes_js (toLowerCase_ascii (join [js ''common''] (js '' ''))) k"
    by (simp add: js_def toLowerCase_ascii_def)
  have a: "endsWith [h_ta, h_be, h_ru] [h_ru]" and b: "endsWith [h_to, h_ru] [h_ru]"
    by (simp_all add: endsWith_def suffix_to_prefix)
  show ?thesis
    using a b
      detect_ru_ending [where toLowerCase = toLowerCase_ascii and tags = "[js ''common'']", OF t a]
      detect_ru_ending [where toLowerCase = toLowerCase_ascii and tags = "[js ''common'']", OF t b]
    by (simp add: slice_0_m1)
qed

text \<open>
  The kana \<open>ri\<close> is not among the 24 kana of the claim, yet \<open>oriru\<close> (to get off), with
  no tags, is detected as ichidan and not as godan.
\<close>

theorem detect_oriru_counterexample:
  "h_ri \<notin> {h_i, h_ki, h_gi, h_shi, h_ji, h_chi, h_ni, h_hi, h_bi, h_pi, h_e, h_ke, h_ge, h_se,
            h_ze, h_te, h_de, h_ne, h_he, h_be, h_pe, h_me, h_re, h_mi}
   \<and> detectVerbType toLowerCase_ascii [h_o, h_ri, h_ru] [] = Some (js ''ichidan'')
   \<and> detectVerbType toLowerCase_ascii [h_o, h_ri, h_ru] [] \<noteq> Some (js ''godan'')"
  by (simp add: detectVerbType_def Let_def ichiSounds_def toLowerCase_ascii_def
      endsWith_def suffix_to_prefix slice_0_m1 slice_from_m1 js_def)

text \<open>
  C5. The claim expects suru for a reading ending in \<open>suru\<close> and kuru for the two
  spellings of \<open>kuru\<close> when no tag matches. Each of these readings ends in \<open>ru\<close>, so the
  earlier branch on that ending returns first: with no tags, \<open>suru\<close>, \<open>benkyousuru\<close>
  and both spellings of \<open>kuru\<close> are detected as godan.
\<close>

theorem detect_suru_kuru_shadowed:
  "detectVerbType toLowerCase_ascii [h_su, h_ru] [] = Some (js ''godan'')
   \<and> detectVerbType toLowerCase_ascii [h_be, h_n, h_ki, h_yo, h_u, h_su, h_ru] [] = Some (js ''godan'')
   \<and> detectVerbType toLowerCase_ascii [h_ku, h_ru] [] = Some (js ''godan'')
   \<and> detectVerbType toLowerCase_ascii [kanji_come, h_ru] [] = Some (js ''godan'')"
  by (simp add: detectVerbType_def Let_def ichiSounds_def toLowerCase_ascii_def
      endsWith_def suffix_to_prefix slice_0_m1 slice_from_m1 js_def)

text \<open>
  More generally, without a matching tag the two last branches of \<open>detectVerbType\<close>
  are never reached: the result is ichidan, godan or undetermined.
\<close>

lemma endsWith_suru_ru: "endsWith reading [h_su, h_ru] \<Longrightarrow> endsWith reading [h_ru]"
  by (auto simp: endsWith_def suffix_def)

lemma detect_fallback_never_suru_kuru:
  assumes "\<forall>k \<in> set [js ''godan'', js ''v5'', js ''ichidan'', js ''v1'', js ''suru'', js ''vs'',
              js ''kuru'', js ''vk'']. \<not> includes_js (toLowerCase (join tags (js '' ''))) k"
  shows "detectVerbType toLowerCase reading tags \<in> {Some (js ''ichidan''), Some (js ''godan''), None}"
proof -
  have "endsWith reading [h_su, h_ru] \<Longrightarrow> endsWith reading [h_ru]"
    by (rule endsWith_suru_ru)
  moreover have "reading = [h_ku, h_ru] \<or> reading = [kanji_come, h_ru] \<Longrightarrow> endsWith reading [h_ru]"
    by (auto simp: endsWith_def suffix_def)
  ultimately show ?thesis
    using assms by (auto simp: detectVerbType_def Let_def)
qed

section \<open>Precedence of the category rules\<close>

text \<open>
  C6. When the lower-cased, space-joined parts of speech contain \<open>adverb\<close> and none of
  ichidan, v1, godan, v5, suru, vs-, kuru, vk, counter, \<open>detectCategory\<close> returns the
  category adverb with no verb type, whether or not \<open>verb\<close> occurs as well: the adverb
  rule comes before the rule for the bare \<open>verb\<close>. Selecting the lookup result built
  from that classification keeps it, and so does selecting any result with these parts
  of speech whose category is absent, other or adverb and which carries no verb type.
\<close>

theorem adverb_before_verb:
  assumes "includes_js (toLowerCase (join partsOfSpeech (js '' ''))) (js ''adverb'')"
    and "\<forall>k \<in> set [js ''ichidan'', js ''v1'', js ''godan'', js ''v5'', js ''suru'', js ''vs-'',
              js ''kuru'', js ''vk'', js ''counter''].
            \<not> includes_js (toLowerCase (join partsOfSpeech (js '' ''))) k"
  shows "detectCategory toLowerCase partsOfSpeech = \<lparr>category = Adverb, verbType = None\<rparr>
    \<and> selectResult toLowerCase
         \<lparr>result_hiragana = reading, result_tags = tags, result_partsOfSpeech = partsOfSpeech,
          result_category = Some (category (detectCategory toLowerCase partsOfSpeech)),
          result_verbType = verbType (detectCategory toLowerCase partsOfSpeech)\<rparr> = (Adverb, None)
    \<and> (result_partsOfSpeech result = partsOfSpeech
        \<and> result_category result \<in> {None, Some Other, Some Adverb}
        \<and> \<not> truthy (result_verbType result)
        \<longrightarrow> selectResult toLowerCase result = (Adverb, None))"
proof -
  have d: "detectCategory toLowerCase partsOfSpeech = \<lparr>category = Adverb, verbType = None\<rparr>"
    using assms by (simp add: detectCategory_def Let_def)
  show ?thesis
    using assms by (auto simp: d selectResult_def Let_def truthy_def)
qed

text \<open>
  The single tag \<open>adverbial-verb-form\<close> contains both \<open>adverb\<close> and \<open>verb\<close> and is
  classified as an adverb, also when a result for \<open>totemo\<close> (very) that carries it is
  selected with the category other; a tag with a capital letter is an adverb too.
\<close>

theorem adverb_before_verb_witness:
  "includes_js (toLowerCase_ascii (join [js ''adverbial-verb-form''] (js '' ''))) (js ''adverb'')
   \<and> includes_js (toLowerCase_ascii (join [js ''adverbial-verb-form''] (js '' ''))) (js ''verb'')
   \<and> detectCategory toLowerCase_ascii [js ''adverbial-verb-form''] = \<lparr>category = Adverb, verbType = None\<rparr>
   \<and> selectResult toLowerCase_ascii
        \<lparr>result_hiragana = [h_to, h_te, h_mo], result_tags = [],
         result_partsOfSpeech = [js ''adverbial-verb-form''],
         result_category = Some Other, result_verbType = None\<rparr> = (Adverb, None)
   \<and> detectCategory toLowerCase_ascii [js ''Adverb (fukushi)''] = \<lparr>category = Adverb, verbType = None\<rparr>"
proof -
  have a: "includes_js (toLowerCase_ascii (join [js ''adverbial-verb-form''] (js '' ''))) (js ''adverb'')"
    by (simp add: js_def toLowerCase_ascii_def)
  have v: "includes_js (toLowerCase_ascii (join [js ''adverbial-verb-form''] (js '' ''))) (js ''verb'')"
    by (simp add: js_def toLowerCase_ascii_def)
  have n: "\<forall>k \<in> set [js ''ichidan'', js ''v1'', js ''godan'', js ''v5'', js ''suru'', js ''vs-'',
              js ''kuru'', js ''vk'', js ''counter''].
            \<not> includes_js (toLowerCase_ascii (join [js ''adverbial-verb-form''] (js '' ''))) k"
    by (simp add: js_def toLowerCase_ascii_def)
  have a': "includes_js (toLowerCase_ascii (join [js ''Adverb (fukushi)''] (js '' ''))) (js ''adverb'')"
    by (simp add: js_def toLowerCase_ascii_def)
  have n': "\<forall>k \<in> set [js ''ichidan'', js ''v1'', js ''godan'', js ''v5'', js ''suru'', js ''vs-'',
              js ''kuru'', js ''vk'', js ''counter''].
            \<not> includes_js (toLowerCase_ascii (join [js ''Adverb (fukushi)''] (js '' ''))) k"
    by (simp add: js_def toLowerCase_ascii_def)
  show ?thesis
    using a v
      adverb_before_verb [where toLowerCase = toLowerCase_ascii
        and partsOfSpeech = "[js ''adverbial-verb-form'']"
        and result = "\<lparr>result_hiragana = [h_to, h_te, h_mo], result_tags = [],
           result_partsOfSpeech = [js ''adverbial-verb-form''],
           result_category = Some Other, result_verbType = None\<rparr>", OF a n]
      adverb_before_verb [where toLowerCase = toLowerCase_ascii
        and partsOfSpeech = "[js ''Adverb (fukushi)'']", OF a' n']
    by (simp add: truthy_def)
qed

section \<open>Words without a conjugation table\<close>

text \<open>
  C7. For every reading, \<open>generateConjugations\<close> with a verb type outside ichidan,
  godan, suru, kuru returns the empty table, and the dialog's table is empty for every
  word whose category is neither verb nor one of the two adjective categories, and for
  every verb whose verb type is absent or outside the four. The functions are total:
  the result is a table of length 0, not an error.
\<close>

theorem empty_table_without_class:
  "(vtype \<notin> {js ''ichidan'', js ''godan'', js ''suru'', js ''kuru''}
      \<longrightarrow> generateConjugations reading vtype = []
        \<and> length (generateConjugations reading vtype) = 0)
   \<and> (word_category word \<notin> {Verb, Adjective_i, Adjective_na}
      \<longrightarrow> WordDetailDialog_conjugations word = []
        \<and> length (WordDetailDialog_conjugations word) = 0)
   \<and> (word_category word = Verb \<and>
       (verb_type word = None \<or>
        (\<exists>vt. verb_type word = Some vt \<and> vt \<notin> {js ''ichidan'', js ''godan'', js ''suru'', js ''kuru''}))
      \<longrightarrow> WordDetailDialog_conjugations word = []
        \<and> length (WordDetailDialog_conjugations word) = 0)"
proof -
  have g: "vt \<notin> {js ''ichidan'', js ''godan'', js ''suru'', js ''kuru''}
      \<Longrightarrow> generateConjugations r vt = []" for r vt
    by (simp add: generateConjugations_def)
  show ?thesis
    by (auto simp: WordDetailDialog_conjugations_def truthy_def g split: option.splits)
qed

text \<open>
  An unknown verb type, the noun \<open>neko\<close> (cat), and the verb \<open>nomu\<close> stored without a
  verb type or with an unknown one.
\<close>

theorem empty_table_without_class_witness:
  "js ''nidan'' \<notin> {js ''ichidan'', js ''godan'', js ''suru'', js ''kuru''}
   \<and> generateConjugations [h_no, h_mu] (js ''nidan'') = []
   \<and> WordDetailDialog_conjugations
        \<lparr>word_hiragana = [h_ne, h_ko], word_category = Noun, verb_type = None\<rparr> = []
   \<and> WordDetailDialog_conjugations
        \<lparr>word_hiragana = [h_no, h_mu], word_category = Verb, verb_type = None\<rparr> = []
   \<and> WordDetailDialog_conjugations
        \<lparr>word_hiragana = [h_no, h_mu], word_category = Verb, verb_type = Some (js ''nidan'')\<rparr> = []"
proof -
  have a: "js ''nidan'' \<notin> {js ''ichidan'', js ''godan'', js ''suru'', js ''kuru''}"
    by (simp add: js_def)
  show ?thesis
    using a
      empty_table_without_class [of "js ''nidan''" "[h_no, h_mu]"
        "\<lparr>word_hiragana = [h_ne, h_ko], word_category = Noun, verb_type = None\<rparr>"]
      empty_table_without_class [of "js ''nidan''" "[h_no, h_mu]"
        "\<lparr>word_hiragana = [h_no, h_mu], word_category = Verb, verb_type = None\<rparr>"]
      empty_table_without_class [of "js ''nidan''" "[h_no, h_mu]"
        "\<lparr>word_hiragana = [h_no, h_mu], word_category = Verb, verb_type = Some (js ''nidan'')\<rparr>"]
    by simp
qed

end
